theory Spec2Isabelle
  imports Complex_Main
begin

section \<open>The digital-twin streaming loop of \<^verbatim>\<open>server.py\<close>\<close>

text \<open>
  Python floats are modelled by \<^typ>\<open>real\<close>: the arithmetic of the loop is the exact
  arithmetic of the formulas written in the source, rounding and the non-finite values
  (\<^verbatim>\<open>inf\<close>, \<^verbatim>\<open>nan\<close>) of IEEE doubles are not represented. Every \<^verbatim>\<open>raise\<close> the loop can
  meet is a value of \<open>py_error\<close>; the two Keras models and the websocket are parameters of
  the model, each a function that either returns or raises.
\<close>

subsection \<open>Errors and small helpers\<close>

datatype py_error =
    KeyError string
  | ZeroDivisionError
  | IndexError
  | ValueError
  | ModelError string
  | TransportError

text \<open>Left-to-right evaluation of a list of fallible computations; the first raise wins.\<close>

primrec traverse :: "('a \<Rightarrow> py_error + 'b) \<Rightarrow> 'a list \<Rightarrow> py_error + 'b list" where
  "traverse f [] = Inr []"
| "traverse f (x # xs) =
     (case f x of
        Inl e \<Rightarrow> Inl e
      | Inr v \<Rightarrow> (case traverse f xs of Inl e \<Rightarrow> Inl e | Inr vs \<Rightarrow> Inr (v # vs)))"

text \<open>Indexing with a non-negative index, \<^verbatim>\<open>a[i]\<close>; out of range raises.\<close>

definition py_index :: "'a list \<Rightarrow> nat \<Rightarrow> py_error + 'a" where
  "py_index xs i = (if i < length xs then Inr (xs ! i) else Inl IndexError)"

subsection \<open>Scaler table and \<^verbatim>\<open>norm\<close>\<close>

text \<open>
  \<^verbatim>\<open>scalers = json.load(f)\<close>: a dictionary from feature name to a dictionary holding
  \<^verbatim>\<open>"mean"\<close> and \<^verbatim>\<open>"scale"\<close>.
\<close>

type_synonym scaler_table = "string \<rightharpoonup> (string \<rightharpoonup> real)"

text \<open>
  \<^verbatim>\<open>def norm(val, key): return (val - scalers[key]["mean"]) / scalers[key]["scale"]\<close>.
  The left operand is evaluated first; a missing key raises \<^verbatim>\<open>KeyError\<close>, a zero scale
  raises \<^verbatim>\<open>ZeroDivisionError\<close>.
\<close>

definition norm_feature :: "scaler_table \<Rightarrow> real \<Rightarrow> string \<Rightarrow> py_error + real" where
  "norm_feature scalers val key =
     (case scalers key of
        None \<Rightarrow> Inl (KeyError key)
      | Some entry \<Rightarrow>
          (case entry ''mean'' of
             None \<Rightarrow> Inl (KeyError ''mean'')
           | Some m \<Rightarrow>
               (case entry ''scale'' of
                  None \<Rightarrow> Inl (KeyError ''scale'')
                | Some sc \<Rightarrow> if sc = 0 then Inl ZeroDivisionError else Inr ((val - m) / sc))))"

subsection \<open>Settings and state\<close>

definition RESOLUTION :: nat where "RESOLUTION = 50"
definition BEAM_LENGTH :: real where "BEAM_LENGTH = 1050"
definition BEAM_HEIGHT :: real where "BEAM_HEIGHT = 300"
definition FAILURE_THRESHOLD :: real where "FAILURE_THRESHOLD = 0.9"
definition TIME_STEP :: real where "TIME_STEP = 1.0"

text \<open>\<^verbatim>\<open>history = deque(maxlen=10)\<close>\<close>

definition history_maxlen :: nat where "history_maxlen = 10"

text \<open>
  The three module-level variables \<^verbatim>\<open>history\<close>, \<^verbatim>\<open>time\<close>, \<^verbatim>\<open>damage_state\<close>. A history
  entry is the two-element list \<^verbatim>\<open>[max_stress, avg_stress]\<close>.
\<close>

record sim_state =
  history :: "(real \<times> real) list"
  time :: real
  damage_state :: real

definition initial_state :: sim_state where
  "initial_state = \<lparr>history = [], time = 0.0, damage_state = 0.05\<rparr>"

text \<open>
  \<^verbatim>\<open>deque.append\<close> on a deque bounded by \<open>maxlen\<close>: the item is added on the right and, when
  the bound is exceeded, one item is dropped from the left.
\<close>

definition deque_append :: "nat \<Rightarrow> 'a list \<Rightarrow> 'a \<Rightarrow> 'a list" where
  "deque_append maxlen d x = (let d' = d @ [x] in if maxlen < length d' then tl d' else d')"

text \<open>
  Module import (lines 13--33): the two models and the scaler file are loaded, each load
  either raising or returning, and the state variables are initialised. Nothing is looked
  up in the scaler table here.
\<close>

definition startup ::
  "py_error + 'm \<Rightarrow> py_error + 'l \<Rightarrow> py_error + scaler_table
     \<Rightarrow> py_error + 'm \<times> 'l \<times> scaler_table \<times> sim_state" where
  "startup load_pinn load_lstm load_scalers =
     (case load_pinn of
        Inl e \<Rightarrow> Inl e
      | Inr pinn \<Rightarrow>
          (case load_lstm of
             Inl e \<Rightarrow> Inl e
           | Inr lstm \<Rightarrow>
               (case load_scalers of
                  Inl e \<Rightarrow> Inl e
                | Inr scalers \<Rightarrow> Inr (pinn, lstm, scalers, initial_state))))"

subsection \<open>The stress field (lines 58--80)\<close>

type_synonym model = "real list list \<Rightarrow> py_error + real list list"

text \<open>The points visited by \<^verbatim>\<open>for y in range(R + 1): for x in range(R + 1)\<close>, as \<open>(x, y)\<close>.\<close>

definition grid_points :: "nat \<Rightarrow> (nat \<times> nat) list" where
  "grid_points R = concat (map (\<lambda>y. map (\<lambda>x. (x, y)) [0..<R + 1]) [0..<R + 1])"

text \<open>The raw features of a point, in the order of the array literal.\<close>

definition raw_features :: "nat \<Rightarrow> nat \<times> nat \<Rightarrow> (real \<times> string) list" where
  "raw_features R p =
     (let phys_x = (real (fst p) / real R - 0.5) * BEAM_LENGTH;
          phys_y = (real (snd p) / real R - 0.5) * BEAM_HEIGHT
      in [(phys_x, ''x''), (phys_y, ''y''), (50000, ''load_mag''),
          (5.5, ''global_deflection''), (25, ''fc''), (314, ''fy'')])"

text \<open>
  The row \<^verbatim>\<open>X\<close> built for one point. \<^verbatim>\<open>x / RESOLUTION\<close> is a true division of Python
  integers and raises on a zero resolution.
\<close>

definition point_features :: "scaler_table \<Rightarrow> nat \<Rightarrow> nat \<times> nat \<Rightarrow> py_error + real list" where
  "point_features scalers R p =
     (if R = 0 then Inl ZeroDivisionError
      else traverse (\<lambda>(v, k). norm_feature scalers v k) (raw_features R p))"

text \<open>\<^verbatim>\<open>stress = base_stress * (1.0 + 2.5 * crack_severity)\<close>\<close>

definition amplify :: "real \<Rightarrow> real \<Rightarrow> real" where
  "amplify base_stress crack_severity = base_stress * (1.0 + 2.5 * crack_severity)"

text \<open>
  The body of the inner loop: build \<^verbatim>\<open>X\<close>, read \<^verbatim>\<open>pinn.predict(X)[0][1]\<close>, amplify.
\<close>

definition point_stress ::
  "scaler_table \<Rightarrow> model \<Rightarrow> real \<Rightarrow> nat \<Rightarrow> nat \<times> nat \<Rightarrow> py_error + real" where
  "point_stress scalers pinn crack_severity R p =
     (case point_features scalers R p of
        Inl e \<Rightarrow> Inl e
      | Inr X \<Rightarrow>
          (case pinn [X] of
             Inl e \<Rightarrow> Inl e
           | Inr out \<Rightarrow>
               (case py_index out 0 of
                  Inl e \<Rightarrow> Inl e
                | Inr row \<Rightarrow>
                    (case py_index row 1 of
                       Inl e \<Rightarrow> Inl e
                     | Inr base_stress \<Rightarrow> Inr (amplify base_stress crack_severity)))))"

definition stress_field_loop ::
  "scaler_table \<Rightarrow> model \<Rightarrow> real \<Rightarrow> nat \<Rightarrow> py_error + real list" where
  "stress_field_loop scalers pinn crack_severity R =
     traverse (point_stress scalers pinn crack_severity R) (grid_points R)"

text \<open>
  The rows handed to the surrogate during one pass of the double loop, in the order in
  which they are built.
\<close>

definition grid_sampler :: "scaler_table \<Rightarrow> nat \<Rightarrow> py_error + real list list" where
  "grid_sampler scalers R = traverse (point_features scalers R) (grid_points R)"

subsection \<open>Damage evolution (lines 85--92)\<close>

definition np_max :: "real list \<Rightarrow> py_error + real" where
  "np_max xs = (case xs of [] \<Rightarrow> Inl ValueError | y # ys \<Rightarrow> Inr (fold max ys y))"

definition np_mean :: "real list \<Rightarrow> real" where
  "np_mean xs = sum_list xs / real (length xs)"

definition growth_rate :: "real \<Rightarrow> real" where
  "growth_rate max_stress = 0.002 + 0.00000004 * max_stress"

definition damage_update :: "real \<Rightarrow> real \<Rightarrow> real" where
  "damage_update damage max_stress = min 1.0 (damage + growth_rate max_stress)"

subsection \<open>Prognostics (lines 97--107)\<close>

type_synonym seq_model = "(real \<times> real) list list \<Rightarrow> py_error + real list list"

definition rul_of :: "real \<Rightarrow> real" where
  "rul_of damage_pred =
     (if damage_pred < FAILURE_THRESHOLD then (FAILURE_THRESHOLD - damage_pred) / TIME_STEP
      else 0.0)"

definition prognostics :: "seq_model \<Rightarrow> sim_state \<Rightarrow> py_error + real \<times> real option" where
  "prognostics lstm s =
     (if length (history s) = history_maxlen then
        (case lstm [history s] of
           Inl e \<Rightarrow> Inl e
         | Inr out \<Rightarrow>
             (case py_index out 0 of
                Inl e \<Rightarrow> Inl e
              | Inr row \<Rightarrow>
                  (case py_index row 0 of
                     Inl e \<Rightarrow> Inl e
                   | Inr damage_pred \<Rightarrow> Inr (damage_pred, Some (rul_of damage_pred)))))
      else Inr (damage_state s, None))"

subsection \<open>One iteration of the session loop (lines 44--123)\<close>

record message =
  msg_time :: real
  stress_field :: "real list"
  damage_prediction :: real
  rul :: "real option"

text \<open>
  An iteration either sends its message and reaches the end of the body, or an exception
  leaves the coroutine; in both cases the module-level state is what the assignments
  executed so far have made it.
\<close>

datatype outcome =
    Raised (error_of: py_error) (state_of: sim_state)
  | Sent (message_of: message) (state_of: sim_state)

definition loop_body ::
  "scaler_table \<Rightarrow> model \<Rightarrow> seq_model \<Rightarrow> (message \<Rightarrow> py_error option) \<Rightarrow> sim_state \<Rightarrow> outcome"
  where
  "loop_body scalers pinn lstm send s =
     (let crack_severity = damage_state s in
      case stress_field_loop scalers pinn crack_severity RESOLUTION of
        Inl e \<Rightarrow> Raised e s
      | Inr sf \<Rightarrow>
          (case np_max sf of
             Inl e \<Rightarrow> Raised e s
           | Inr max_stress \<Rightarrow>
               (let avg_stress = np_mean sf;
                    s1 = s\<lparr>damage_state := damage_update (damage_state s) max_stress\<rparr>;
                    s2 = s1\<lparr>history := deque_append history_maxlen (history s1) (max_stress, avg_stress)\<rparr>
                in case prognostics lstm s2 of
                     Inl e \<Rightarrow> Raised e s2
                   | Inr (damage_pred, r) \<Rightarrow>
                       (let msg = \<lparr>msg_time = time s2, stress_field = sf,
                                   damage_prediction = damage_pred, rul = r\<rparr>
                        in case send msg of
                             Some e \<Rightarrow> Raised e s2
                           | None \<Rightarrow> Sent msg (s2\<lparr>time := time s2 + TIME_STEP\<rparr>)))))"

text \<open>The shared state once lines 90 and 92 have run.\<close>

definition after_update :: "sim_state \<Rightarrow> real \<Rightarrow> real \<Rightarrow> sim_state" where
  "after_update s max_stress avg_stress =
     s\<lparr>damage_state := damage_update (damage_state s) max_stress,
       history := deque_append history_maxlen (history s) (max_stress, avg_stress)\<rparr>"

text \<open>
  \<^verbatim>\<open>while True\<close>, run for at most \<open>n\<close> iterations: the messages sent, the state reached,
  and the exception that ended the loop, if one did. The loop has no \<^verbatim>\<open>try\<close>.
\<close>

fun session ::
  "scaler_table \<Rightarrow> model \<Rightarrow> seq_model \<Rightarrow> (message \<Rightarrow> py_error option) \<Rightarrow> nat \<Rightarrow> sim_state
     \<Rightarrow> message list \<times> sim_state \<times> py_error option" where
  "session scalers pinn lstm send 0 s = ([], s, None)"
| "session scalers pinn lstm send (Suc n) s =
     (case loop_body scalers pinn lstm send s of
        Raised e s' \<Rightarrow> ([], s', Some e)
      | Sent m s' \<Rightarrow>
          (case session scalers pinn lstm send n s' of
             (ms, s'', r) \<Rightarrow> (m # ms, s'', r)))"

text \<open>The pair \<^verbatim>\<open>[max_stress, avg_stress]\<close> of the stress field carried by a message.\<close>

definition stress_sample :: "message \<Rightarrow> real \<times> real" where
  "stress_sample m = (Max (set (stress_field m)), np_mean (stress_field m))"

subsection \<open>Concrete collaborators used in the examples\<close>

definition feature_names :: "string list" where
  "feature_names = [''x'', ''y'', ''load_mag'', ''global_deflection'', ''fc'', ''fy'']"

text \<open>A scaler table with mean 0 and scale 1 for the six features.\<close>

definition unit_scalers :: scaler_table where
  "unit_scalers = map_of (map (\<lambda>k. (k, [''mean'' \<mapsto> 0, ''scale'' \<mapsto> 1])) feature_names)"

text \<open>A surrogate answering \<open>[strain, stress, damage] = [0, b, 0]\<close> for every row.\<close>

definition const_pinn :: "real \<Rightarrow> model" where
  "const_pinn b = (\<lambda>X. Inr [[0, b, 0]])"

definition const_lstm :: "real \<Rightarrow> seq_model" where
  "const_lstm d = (\<lambda>seq. Inr [[d]])"

definition failing_lstm :: seq_model where
  "failing_lstm = (\<lambda>seq. Inl (ModelError ''lstm''))"


definition send_ok :: "message \<Rightarrow> py_error option" where
  "send_ok = (\<lambda>m. None)"


text \<open>
  The row of a point when feature \<open>k\<close> has mean \<open>mu k\<close> and scale \<open>sg k\<close>, with the
  beam dimensions and load constants of the source written out.
\<close>

definition scaled_row :: "(string \<Rightarrow> real) \<Rightarrow> (string \<Rightarrow> real) \<Rightarrow> nat \<Rightarrow> nat \<times> nat \<Rightarrow> real list" where
  "scaled_row mu sg R p =
     [((real (fst p) / real R - 0.5) * 1050 - mu ''x'') / sg ''x'',
      ((real (snd p) / real R - 0.5) * 300 - mu ''y'') / sg ''y'',
      (50000 - mu ''load_mag'') / sg ''load_mag'',
      (5.5 - mu ''global_deflection'') / sg ''global_deflection'',
      (25 - mu ''fc'') / sg ''fc'',
      (314 - mu ''fy'') / sg ''fy'']"

text \<open>The state reached from the initial one by nine ticks of a zero surrogate.\<close>

definition nine_quiet_ticks :: sim_state where
  "nine_quiet_ticks = \<lparr>history = replicate 9 (0, 0), time = 9, damage_state = 0.068\<rparr>"

section \<open>Auxiliary facts\<close>

subsection \<open>Sequencing\<close>

lemma traverse_Inr_map:
  "(\<And>x. x \<in> set xs \<Longrightarrow> f x = Inr (g x)) \<Longrightarrow> traverse f xs = Inr (map g xs)"
  by (induction xs) simp_all

lemma traverse_Inr_length: "traverse f xs = Inr ys \<Longrightarrow> length ys = length xs"
  by (induction xs arbitrary: ys) (auto split: sum.splits)

lemma traverse_Inr_nth:
  "traverse f xs = Inr ys \<Longrightarrow> i < length xs \<Longrightarrow> f (xs ! i) = Inr (ys ! i)"
proof (induction xs arbitrary: ys i)
  case Nil
  then show ?case by simp
next
  case (Cons x xs)
  then show ?case by (cases i) (auto split: sum.splits)
qed

lemma traverse_Inl_member:
  "x \<in> set xs \<Longrightarrow> f x = Inl e \<Longrightarrow> \<exists>e'. traverse f xs = Inl e'"
  by (induction xs) (auto split: sum.splits)

subsection \<open>The grid\<close>

lemma length_grid_points: "length (grid_points R) = (R + 1)\<^sup>2"
  by (simp add: grid_points_def length_concat comp_def sum_list_triv power2_eq_square)

lemma nth_concat_map_uniform:
  assumes "\<And>y. y \<in> set ys \<Longrightarrow> length (f y) = n" "j < length ys" "i < n"
  shows "concat (map f ys) ! (j * n + i) = f (ys ! j) ! i"
  using assms
proof (induction ys arbitrary: j)
  case Nil
  then show ?case by simp
next
  case (Cons y ys)
  show ?case
  proof (cases j)
    case 0
    with Cons.prems show ?thesis by (simp add: nth_append)
  next
    case (Suc k)
    have "concat (map f (y # ys)) ! (j * n + i) = concat (map f ys) ! (k * n + i)"
      using Cons.prems Suc by (simp add: nth_append)
    also have "\<dots> = f (ys ! k) ! i"
      using Cons.prems Suc by (intro Cons.IH) auto
    finally show ?thesis using Suc by simp
  qed
qed

lemma grid_points_nth:
  assumes "ix \<le> R" "iy \<le> R"
  shows "grid_points R ! (iy * (R + 1) + ix) = (ix, iy)"
proof -
  have "grid_points R ! (iy * (R + 1) + ix)
        = map (\<lambda>x. (x, [0..<R + 1] ! iy)) [0..<R + 1] ! ix"
    unfolding grid_points_def using assms
    by (intro nth_concat_map_uniform) auto
  then show ?thesis using assms by (simp del: upt_Suc)
qed

lemma fold_max_replicate: "fold max (replicate n v) (v::real) = v"
  by (induction n) simp_all

lemma np_max_replicate: "0 < n \<Longrightarrow> np_max (replicate n v) = Inr v"
  by (cases n) (simp_all add: np_max_def fold_max_replicate del: fold_replicate)

lemma np_mean_replicate: "0 < n \<Longrightarrow> np_mean (replicate n v) = v"
  by (simp add: np_mean_def sum_list_replicate)

subsection \<open>Running the loop body\<close>

lemma unit_scalers_norm:
  "k \<in> set feature_names \<Longrightarrow> norm_feature unit_scalers v k = Inr v"
  by (auto simp: feature_names_def unit_scalers_def norm_feature_def)

lemma point_features_unit:
  "0 < R \<Longrightarrow> point_features unit_scalers R p =
     Inr [(real (fst p) / real R - 0.5) * 1050, (real (snd p) / real R - 0.5) * 300,
          50000, 5.5, 25, 314]"
  by (simp add: point_features_def raw_features_def unit_scalers_norm feature_names_def
      BEAM_LENGTH_def BEAM_HEIGHT_def)

lemma point_stress_const:
  "0 < R \<Longrightarrow> point_stress unit_scalers (const_pinn b) c R p = Inr (amplify b c)"
  by (simp add: point_stress_def point_features_unit const_pinn_def py_index_def)

lemma stress_field_loop_const:
  "0 < R \<Longrightarrow> stress_field_loop unit_scalers (const_pinn b) c R =
     Inr (replicate ((R + 1)\<^sup>2) (amplify b c))"
  unfolding stress_field_loop_def
  by (subst traverse_Inr_map [where g = "\<lambda>_. amplify b c"])
     (simp_all add: point_stress_const map_replicate_const length_grid_points)

lemma loop_body_field_raises:
  "stress_field_loop scalers pinn (damage_state s) RESOLUTION = Inl e \<Longrightarrow>
   loop_body scalers pinn lstm send s = Raised e s"
  by (simp add: loop_body_def)

lemma loop_body_field_returns:
  assumes "stress_field_loop scalers pinn (damage_state s) RESOLUTION = Inr sf"
    and "np_max sf = Inr max_stress"
  shows "loop_body scalers pinn lstm send s =
     (let s2 = after_update s max_stress (np_mean sf) in
      case prognostics lstm s2 of
        Inl e \<Rightarrow> Raised e s2
      | Inr (damage_pred, r) \<Rightarrow>
         (let msg = \<lparr>msg_time = time s, stress_field = sf,
                     damage_prediction = damage_pred, rul = r\<rparr>
          in case send msg of
               Some e \<Rightarrow> Raised e s2
             | None \<Rightarrow> Sent msg (s2\<lparr>time := time s + TIME_STEP\<rparr>)))"
  using assms
  by (auto simp: loop_body_def after_update_def Let_def split: sum.splits prod.splits option.splits)

lemma loop_body_const:
  "loop_body unit_scalers (const_pinn b) lstm send s =
     (let v = amplify b (damage_state s); s2 = after_update s v v in
      case prognostics lstm s2 of
        Inl e \<Rightarrow> Raised e s2
      | Inr (damage_pred, r) \<Rightarrow>
         (let msg = \<lparr>msg_time = time s, stress_field = replicate 2601 v,
                     damage_prediction = damage_pred, rul = r\<rparr>
          in case send msg of
               Some e \<Rightarrow> Raised e s2
             | None \<Rightarrow> Sent msg (s2\<lparr>time := time s + TIME_STEP\<rparr>)))"
proof -
  have f: "stress_field_loop unit_scalers (const_pinn b) (damage_state s) RESOLUTION
        = Inr (replicate 2601 (amplify b (damage_state s)))"
    by (simp add: stress_field_loop_const RESOLUTION_def)
  show ?thesis
    by (simp add: loop_body_field_returns [OF f np_max_replicate] np_mean_replicate Let_def)
qed

text \<open>Ticks of a surrogate that answers zero stress, while the window is filling.\<close>

lemma quiet_tick:
  assumes "length (history s) < 9" "damage_state s + 0.002 \<le> 1"
  shows "loop_body unit_scalers (const_pinn 0) lstm send_ok s =
     Sent \<lparr>msg_time = time s, stress_field = replicate 2601 0,
            damage_prediction = damage_state s + 0.002, rul = None\<rparr>
          \<lparr>history = history s @ [(0, 0)], time = time s + 1,
            damage_state = damage_state s + 0.002\<rparr>"
  using assms
  by (simp add: loop_body_const prognostics_def after_update_def deque_append_def
      history_maxlen_def amplify_def damage_update_def growth_rate_def send_ok_def
      TIME_STEP_def Let_def)


subsection \<open>Effect of one iteration on the shared state\<close>

lemma np_max_Max: "xs \<noteq> [] \<Longrightarrow> np_max xs = Inr (Max (set xs))"
  by (cases xs) (simp_all add: np_max_def Max.set_eq_fold [symmetric])

lemma loop_body_damage:
  assumes "stress_field_loop scalers pinn (damage_state s) RESOLUTION = Inr sf"
    and "np_max sf = Inr max_stress"
  shows "damage_state (state_of (loop_body scalers pinn lstm send s))
         = damage_update (damage_state s) max_stress"
  by (simp add: loop_body_field_returns [OF assms] after_update_def Let_def
      split: sum.splits prod.splits option.splits)

lemma loop_body_history:
  assumes "stress_field_loop scalers pinn (damage_state s) RESOLUTION = Inr sf"
    and "np_max sf = Inr max_stress"
  shows "history (state_of (loop_body scalers pinn lstm send s))
         = deque_append history_maxlen (history s) (max_stress, np_mean sf)"
  by (simp add: loop_body_field_returns [OF assms] after_update_def Let_def
      split: sum.splits prod.splits option.splits)

lemma loop_body_unchanged:
  assumes "stress_field_loop scalers pinn (damage_state s) RESOLUTION = Inl e"
  shows "state_of (loop_body scalers pinn lstm send s) = s"
  by (simp add: loop_body_field_raises [OF assms])

lemma loop_body_unchanged_max:
  assumes "stress_field_loop scalers pinn (damage_state s) RESOLUTION = Inr sf"
    and "np_max sf = Inl e"
  shows "state_of (loop_body scalers pinn lstm send s) = s"
  using assms by (simp add: loop_body_def)

subsection \<open>The prognostics step and the message\<close>

lemma prognostics_not_full:
  "length (history s) \<noteq> history_maxlen \<Longrightarrow> prognostics lstm s = Inr (damage_state s, None)"
  by (simp add: prognostics_def)

lemma prognostics_full_Inr:
  assumes "length (history s) = history_maxlen" "prognostics lstm s = Inr (d, r)"
  shows "\<exists>out row. lstm [history s] = Inr out \<and> py_index out 0 = Inr row
           \<and> py_index row 0 = Inr d \<and> r = Some (rul_of d)"
  using assms by (auto simp: prognostics_def split: sum.splits)

lemma loop_body_Sent_fieldE:
  assumes "loop_body scalers pinn lstm send s = Sent m s'"
  obtains sf max_stress where
    "stress_field_loop scalers pinn (damage_state s) RESOLUTION = Inr sf"
    "np_max sf = Inr max_stress"
  using assms by (auto simp: loop_body_def split: sum.splits)

lemma loop_body_Sent_iff:
  assumes "stress_field_loop scalers pinn (damage_state s) RESOLUTION = Inr sf"
    and "np_max sf = Inr max_stress"
  shows "loop_body scalers pinn lstm send s = Sent m s' \<longleftrightarrow>
     (\<exists>d r. prognostics lstm (after_update s max_stress (np_mean sf)) = Inr (d, r)
        \<and> m = \<lparr>msg_time = time s, stress_field = sf, damage_prediction = d, rul = r\<rparr>
        \<and> send m = None
        \<and> s' = (after_update s max_stress (np_mean sf))\<lparr>time := time s + TIME_STEP\<rparr>)"
  by (auto simp: loop_body_field_returns [OF assms] Let_def
      split: sum.splits prod.splits option.splits)

subsection \<open>Concrete ticks\<close>


lemma replicate_10: "replicate 10 x = x # replicate 9 x"
  by (simp add: eval_nat_numeral)

lemma tenth_tick:
  "loop_body unit_scalers (const_pinn 0) (const_lstm d) send_ok nine_quiet_ticks =
     Sent \<lparr>msg_time = 9, stress_field = replicate 2601 0, damage_prediction = d,
            rul = Some (rul_of d)\<rparr>
          \<lparr>history = replicate 10 (0, 0), time = 10, damage_state = 0.07\<rparr>"
  by (simp add: loop_body_const prognostics_def after_update_def deque_append_def
      history_maxlen_def amplify_def damage_update_def growth_rate_def send_ok_def
      const_lstm_def py_index_def TIME_STEP_def Let_def nine_quiet_ticks_def
      replicate_append_same replicate_10)

lemma first_tick:
  "loop_body unit_scalers (const_pinn 0) lstm send_ok initial_state =
     Sent \<lparr>msg_time = 0, stress_field = replicate 2601 0, damage_prediction = 0.052,
            rul = None\<rparr>
          \<lparr>history = [(0, 0)], time = 1, damage_state = 0.052\<rparr>"
  by (subst quiet_tick) (simp_all add: initial_state_def)

subsection \<open>The bounded deque\<close>

lemma deque_append_drop:
  "deque_append k d x = drop (length (d @ [x]) - k) (d @ [x])" if "length d \<le> k"
proof (cases "length d = k")
  case True
  then show ?thesis
    by (cases d) (simp_all add: deque_append_def)
next
  case False
  with that show ?thesis by (simp add: deque_append_def)
qed

lemma drop_window_snoc:
  "drop (length (drop (length L - k) L @ [x]) - k) (drop (length L - k) L @ [x])
     = drop (length (L @ [x]) - k) (L @ [x])"
proof (cases "length L \<le> k")
  case True
  then show ?thesis by simp
next
  case False
  then have lt: "k < length L" by simp
  then have len: "length (drop (length L - k) L) = k" by simp
  show ?thesis
  proof (cases k)
    case 0
    then show ?thesis by simp
  next
    case (Suc j)
    have a: "length (drop (length L - k) L @ [x]) - k = 1"
      using len by simp
    have b: "length (L @ [x]) - k = Suc (length L - k)"
      using lt by simp
    have c: "Suc (length L - k) \<le> length L"
      using lt Suc by simp
    show ?thesis
      unfolding a b using c lt by (simp add: drop_Suc tl_drop)
  qed
qed

lemma deque_pushes:
  "length d \<le> k \<Longrightarrow>
   foldl (deque_append k) d xs = drop (length (d @ xs) - k) (d @ xs)"
proof (induction xs rule: rev_induct)
  case Nil
  then show ?case by simp
next
  case (snoc x xs)
  let ?w = "drop (length (d @ xs) - k) (d @ xs)"
  have w: "foldl (deque_append k) d xs = ?w"
    using snoc by simp
  have lw: "length ?w \<le> k"
    by simp
  have "foldl (deque_append k) d (xs @ [x]) = deque_append k ?w x"
    by (simp add: w)
  also have "\<dots> = drop (length (?w @ [x]) - k) (?w @ [x])"
    by (rule deque_append_drop [OF lw])
  also have "\<dots> = drop (length (d @ xs @ [x]) - k) (d @ xs @ [x])"
    using drop_window_snoc [of "d @ xs" k x] by simp
  finally show ?case by simp
qed

subsection \<open>The window along a session\<close>

lemma np_max_Inr_Max: "np_max xs = Inr v \<Longrightarrow> v = Max (set xs)"
  by (cases xs) (simp_all add: np_max_def Max.set_eq_fold [symmetric])

lemma loop_body_Sent_history:
  assumes "loop_body scalers pinn lstm send s = Sent m s'"
  shows "history s' = deque_append history_maxlen (history s) (stress_sample m)"
proof -
  obtain sf max_stress where
    f: "stress_field_loop scalers pinn (damage_state s) RESOLUTION = Inr sf"
    and mx: "np_max sf = Inr max_stress"
    using assms by (rule loop_body_Sent_fieldE)
  have m: "stress_field m = sf"
    and s': "s' = (after_update s max_stress (np_mean sf))\<lparr>time := time s + TIME_STEP\<rparr>"
    using assms unfolding loop_body_Sent_iff [OF f mx] by auto
  show ?thesis
    by (simp add: s' after_update_def stress_sample_def m np_max_Inr_Max [OF mx])
qed

lemma session_history:
  "session scalers pinn lstm send n s = (ms, s', None) \<Longrightarrow>
   history s' = foldl (deque_append history_maxlen) (history s) (map stress_sample ms)
   \<and> length ms = n"
proof (induction n arbitrary: s ms)
  case 0
  then show ?case by simp
next
  case (Suc n)
  show ?case
  proof (cases "loop_body scalers pinn lstm send s")
    case (Raised e s1)
    with Suc.prems show ?thesis by simp
  next
    case (Sent m s1)
    obtain ms1 where run: "session scalers pinn lstm send n s1 = (ms1, s', None)"
      and ms: "ms = m # ms1"
      using Suc.prems Sent by (auto split: prod.splits)
    show ?thesis
      using Suc.IH [OF run] by (simp add: ms loop_body_Sent_history [OF Sent])
  qed
qed

lemma deque_append_length: "length d \<le> k \<Longrightarrow> length (deque_append k d x) \<le> k"
  by (simp add: deque_append_drop)

lemma loop_body_history_bound:
  assumes "length (history s) \<le> history_maxlen"
  shows "length (history (state_of (loop_body scalers pinn lstm send s))) \<le> history_maxlen"
proof (cases "stress_field_loop scalers pinn (damage_state s) RESOLUTION")
  case (Inl e)
  then show ?thesis using assms by (simp add: loop_body_unchanged)
next
  case (Inr sf)
  show ?thesis
  proof (cases "np_max sf")
    case (Inl e)
    then show ?thesis using assms Inr by (simp add: loop_body_unchanged_max)
  next
    case mx: (Inr max_stress)
    show ?thesis
      using assms by (simp add: loop_body_history [OF Inr mx] deque_append_length)
  qed
qed

lemma session_history_bound:
  "length (history s) \<le> history_maxlen \<Longrightarrow>
   session scalers pinn lstm send n s = (ms, s', r) \<Longrightarrow>
   length (history s') \<le> history_maxlen"
proof (induction n arbitrary: s ms)
  case 0
  then show ?case by simp
next
  case (Suc n)
  have b: "length (history (state_of (loop_body scalers pinn lstm send s))) \<le> history_maxlen"
    using Suc.prems(1) by (rule loop_body_history_bound)
  show ?case
  proof (cases "loop_body scalers pinn lstm send s")
    case (Raised e s1)
    with Suc.prems(2) b show ?thesis by simp
  next
    case (Sent m s1)
    obtain ms1 where run: "session scalers pinn lstm send n s1 = (ms1, s', r)"
      using Suc.prems(2) Sent by (auto split: prod.splits)
    have "length (history s1) \<le> history_maxlen"
      using b Sent by simp
    then show ?thesis using run by (rule Suc.IH)
  qed
qed

lemma deque_append_full:
  assumes "length d = k" "0 < k"
  shows "deque_append k d x = tl d @ [x]"
proof -
  have "d \<noteq> []" using assms by auto
  then show ?thesis
    using assms(1) by (simp add: deque_append_def)
qed

lemma steady_session:
  "snd (snd (session unit_scalers (const_pinn b) (const_lstm d) send_ok n s)) = None"
proof (induction n arbitrary: s)
  case 0
  then show ?case by simp
next
  case (Suc n)
  have p: "prognostics (const_lstm d) s2 =
      Inr (if length (history s2) = history_maxlen then (d, Some (rul_of d))
           else (damage_state s2, None))" for s2
    by (simp add: prognostics_def const_lstm_def py_index_def)
  have "\<exists>m s1. loop_body unit_scalers (const_pinn b) (const_lstm d) send_ok s = Sent m s1"
    by (simp add: loop_body_const p send_ok_def Let_def)
  then obtain m s1 where tick:
    "loop_body unit_scalers (const_pinn b) (const_lstm d) send_ok s = Sent m s1"
    by blast
  obtain ms s2 r where run:
    "session unit_scalers (const_pinn b) (const_lstm d) send_ok n s1 = (ms, s2, r)"
    by (cases "session unit_scalers (const_pinn b) (const_lstm d) send_ok n s1") auto
  have "r = None"
    using Suc.IH [of s1] by (simp add: run)
  then show ?case
    by (simp add: tick run)
qed

subsection \<open>Rows and stresses of the mesh\<close>

lemma grid_index_bound:
  assumes "ix \<le> R" "iy \<le> (R::nat)"
  shows "iy * (R + 1) + ix < (R + 1)\<^sup>2"
proof -
  have "iy * (R + 1) \<le> R * (R + 1)"
    by (rule mult_le_mono1) (rule assms(2))
  then have "iy * (R + 1) + ix \<le> R * (R + 1) + R"
    using assms(1) by linarith
  also have "\<dots> < (R + 1)\<^sup>2"
    by (simp add: power2_eq_square)
  finally show ?thesis .
qed

lemma norm_feature_entry:
  assumes "scalers k = Some e" "e ''mean'' = Some m" "e ''scale'' = Some c" "c \<noteq> 0"
  shows "norm_feature scalers v k = Inr ((v - m) / c)"
  using assms by (simp add: norm_feature_def)

lemma point_features_scaled:
  assumes "0 < R"
    and "\<forall>k \<in> set feature_names. \<exists>e. scalers k = Some e \<and> e ''mean'' = Some (mu k)
           \<and> e ''scale'' = Some (sg k) \<and> sg k \<noteq> 0"
  shows "point_features scalers R p = Inr (scaled_row mu sg R p)"
proof -
  have n: "norm_feature scalers v k = Inr ((v - mu k) / sg k)" if "k \<in> set feature_names" for v k
    using assms(2) that by (auto intro: norm_feature_entry)
  show ?thesis
    using assms(1)
    by (simp add: point_features_def raw_features_def n feature_names_def scaled_row_def
        BEAM_LENGTH_def BEAM_HEIGHT_def)
qed

lemma grid_sampler_scaled:
  assumes "0 < R"
    and "\<forall>k \<in> set feature_names. \<exists>e. scalers k = Some e \<and> e ''mean'' = Some (mu k)
           \<and> e ''scale'' = Some (sg k) \<and> sg k \<noteq> 0"
  shows "grid_sampler scalers R = Inr (map (scaled_row mu sg R) (grid_points R))"
  unfolding grid_sampler_def
  by (rule traverse_Inr_map) (rule point_features_scaled [OF assms])

lemma stress_field_loop_nth:
  assumes "stress_field_loop scalers pinn c R = Inr sf" "i < (R + 1)\<^sup>2"
  shows "\<exists>X out row b. point_features scalers R (grid_points R ! i) = Inr X
           \<and> pinn [X] = Inr out \<and> py_index out 0 = Inr row \<and> py_index row 1 = Inr b
           \<and> sf ! i = amplify b c"
proof -
  have "point_stress scalers pinn c R (grid_points R ! i) = Inr (sf ! i)"
    using assms unfolding stress_field_loop_def
    by (intro traverse_Inr_nth) (simp_all add: length_grid_points)
  then show ?thesis
    by (auto simp: point_stress_def split: sum.splits)
qed

lemma stress_field_loop_length:
  "stress_field_loop scalers pinn c R = Inr sf \<Longrightarrow> length sf = (R + 1)\<^sup>2"
  unfolding stress_field_loop_def
  by (drule traverse_Inr_length) (simp add: length_grid_points)

lemma grid_points_2:
  "grid_points 2 = [(0, 0), (1, 0), (2, 0), (0, 1), (1, 1), (2, 1), (0, 2), (1, 2), (2, 2)]"
  by code_simp

lemma unit_scalers_entries:
  "\<forall>k \<in> set feature_names. \<exists>e. unit_scalers k = Some e \<and> e ''mean'' = Some ((\<lambda>_. 0) k)
           \<and> e ''scale'' = Some ((\<lambda>_. 1) k) \<and> (\<lambda>_. 1::real) k \<noteq> 0"
  by (simp add: feature_names_def unit_scalers_def)

lemma first_tick_100:
  "loop_body unit_scalers (const_pinn 100) lstm send_ok initial_state =
     Sent \<lparr>msg_time = 0, stress_field = replicate 2601 112.5, damage_prediction = 0.0520045,
            rul = None\<rparr>
          \<lparr>history = [(112.5, 112.5)], time = 1, damage_state = 0.0520045\<rparr>"
  by (simp add: loop_body_const prognostics_def after_update_def deque_append_def
      history_maxlen_def amplify_def damage_update_def growth_rate_def send_ok_def
      TIME_STEP_def Let_def initial_state_def)

subsection \<open>The clock\<close>





subsection \<open>Iterations that raise\<close>

lemma grid_points_Cons: "\<exists>ps. grid_points R = (0, 0) # ps"
  by (simp add: grid_points_def upt_conv_Cons del: upt_Suc)

lemma traverse_Inl_source:
  "traverse f xs = Inl e \<Longrightarrow> \<exists>x \<in> set xs. f x = Inl e"
  by (induction xs) (auto split: sum.splits)

lemma norm_feature_errors:
  "norm_feature scalers v k = Inl e \<Longrightarrow> e = ZeroDivisionError \<or> (\<exists>k'. e = KeyError k')"
  by (auto simp: norm_feature_def split: option.splits if_splits)

lemma norm_feature_missing: "scalers k = None \<Longrightarrow> norm_feature scalers v k = Inl (KeyError k)"
  by (simp add: norm_feature_def)

lemma raw_features_keys: "map snd (raw_features R p) = feature_names"
  by (simp add: raw_features_def feature_names_def)

lemma point_features_missing:
  assumes "k \<in> set feature_names" "scalers k = None"
  shows "\<exists>e. point_features scalers R p = Inl e
           \<and> (e = ZeroDivisionError \<or> (\<exists>k'. e = KeyError k'))"
proof (cases "R = 0")
  case True
  then show ?thesis by (simp add: point_features_def)
next
  case False
  let ?f = "\<lambda>(v, k). norm_feature scalers v k"
  have "set (map snd (raw_features R p)) = snd ` set (raw_features R p)"
    by (rule set_map)
  then have "set feature_names = snd ` set (raw_features R p)"
    by (simp only: raw_features_keys)
  then have "k \<in> snd ` set (raw_features R p)"
    using assms(1) by blast
  then obtain v where v: "(v, k) \<in> set (raw_features R p)"
    by auto
  have "?f (v, k) = Inl (KeyError k)"
    using assms(2) by (simp add: norm_feature_missing)
  then have "\<exists>e. traverse ?f (raw_features R p) = Inl e"
    using v by (rule traverse_Inl_member [rotated])
  then obtain e where e: "traverse ?f (raw_features R p) = Inl e" ..
  then have "\<exists>x \<in> set (raw_features R p). ?f x = Inl e"
    by (rule traverse_Inl_source)
  then obtain v' k' where "norm_feature scalers v' k' = Inl e"
    by (auto split: prod.splits)
  then have err: "e = ZeroDivisionError \<or> (\<exists>k'. e = KeyError k')"
    by (rule norm_feature_errors)
  have "point_features scalers R p = Inl e"
    using False by (simp only: point_features_def e if_False)
  then show ?thesis
    using err by blast
qed

lemma stress_field_loop_first_point:
  assumes "point_stress scalers pinn c R (0, 0) = Inl e"
  shows "stress_field_loop scalers pinn c R = Inl e"
proof -
  obtain ps where "grid_points R = (0, 0) # ps"
    using grid_points_Cons by blast
  then show ?thesis
    using assms by (simp add: stress_field_loop_def)
qed

lemma session_raises:
  "loop_body scalers pinn lstm send s = Raised e s1 \<Longrightarrow>
   session scalers pinn lstm send (Suc n) s = ([], s1, Some e)"
  by simp


lemma stress_field_loop_missing_fy:
  "0 < R \<Longrightarrow> stress_field_loop (unit_scalers(''fy'' := None)) pinn c R = Inl (KeyError ''fy'')"
  by (rule stress_field_loop_first_point)
     (simp add: point_stress_def point_features_def raw_features_def norm_feature_def
        unit_scalers_def feature_names_def)




lemma first_tick_missing_fy:
  "loop_body (unit_scalers(''fy'' := None)) pinn lstm send s = Raised (KeyError ''fy'') s"
  by (rule loop_body_field_raises) (simp add: stress_field_loop_missing_fy RESOLUTION_def)



section \<open>Properties of the loop\<close>

subsection \<open>C1: monotonicity and range of the damage state\<close>

text \<open>
  C1 states that after every tick, whatever \<open>max_stress\<close> is, the damage state is at least
  what it was and lies in \<open>[0, 1]\<close>, the growth rate being clamped at zero. Line 89 has no
  clamp. With a surrogate answering a negative stress the first tick from the initial state
  lowers the damage state (from 0.05 to 0.0484 for a base stress of \<open>-80000\<close>), and a base
  stress of \<open>-2000000\<close> makes it negative.
\<close>

theorem damage_can_decrease:
  "\<not> damage_state initial_state
       \<le> damage_state (state_of (loop_body unit_scalers (const_pinn (- 80000)) (const_lstm 0)
                                    send_ok initial_state))
   \<and> \<not> 0 \<le> damage_state (state_of (loop_body unit_scalers (const_pinn (- 2000000)) (const_lstm 0)
                                    send_ok initial_state))"
  by (simp add: loop_body_const prognostics_def after_update_def deque_append_def
      history_maxlen_def amplify_def damage_update_def growth_rate_def initial_state_def
      send_ok_def Let_def)

text \<open>
  C1 as the code has it: from a damage state in \<open>[0, 1]\<close>, a tick whose \<open>max_stress\<close> is at
  least \<open>-50000\<close> (so that the growth rate of line 89 is not negative) leaves the damage state
  at least what it was, and in \<open>[0, 1]\<close>. This holds for the state left by the iteration
  however it ends.
\<close>

theorem damage_non_decreasing_for_nonnegative_growth:
  assumes "0 \<le> damage_state s" and "damage_state s \<le> 1"
    and "\<And>sf max_stress.
           stress_field_loop scalers pinn (damage_state s) RESOLUTION = Inr sf \<Longrightarrow>
           np_max sf = Inr max_stress \<Longrightarrow> - 50000 \<le> max_stress"
  shows "damage_state s \<le> damage_state (state_of (loop_body scalers pinn lstm send s))
       \<and> 0 \<le> damage_state (state_of (loop_body scalers pinn lstm send s))
       \<and> damage_state (state_of (loop_body scalers pinn lstm send s)) \<le> 1"
proof (cases "stress_field_loop scalers pinn (damage_state s) RESOLUTION")
  case (Inl e)
  then show ?thesis using assms(1,2) by (simp add: loop_body_unchanged)
next
  case (Inr sf)
  show ?thesis
  proof (cases "np_max sf")
    case (Inl e)
    then show ?thesis using assms(1,2) Inr by (simp add: loop_body_unchanged_max)
  next
    case max: (Inr max_stress)
    have "- 50000 \<le> max_stress"
      using assms(3) Inr max by blast
    then have "0 \<le> growth_rate max_stress"
      by (simp add: growth_rate_def)
    then show ?thesis
      using assms(1,2) by (simp add: loop_body_damage [OF Inr max] damage_update_def)
  qed
qed

theorem damage_non_decreasing_for_nonnegative_growth_witness:
  "0 \<le> damage_state initial_state \<and> damage_state initial_state \<le> 1
   \<and> stress_field_loop unit_scalers (const_pinn 100) (damage_state initial_state) RESOLUTION
       = Inr (replicate 2601 112.5)
   \<and> np_max (replicate 2601 112.5) = Inr 112.5
   \<and> damage_state initial_state
       \<le> damage_state (state_of (loop_body unit_scalers (const_pinn 100) (const_lstm 0) send_ok
                                   initial_state))
   \<and> damage_state (state_of (loop_body unit_scalers (const_pinn 100) (const_lstm 0) send_ok
                                   initial_state)) \<le> 1"
proof -
  have f: "stress_field_loop unit_scalers (const_pinn 100) (damage_state initial_state) RESOLUTION
       = Inr (replicate 2601 112.5)"
    by (simp add: stress_field_loop_const RESOLUTION_def amplify_def initial_state_def)
  have m: "np_max (replicate 2601 (112.5::real)) = Inr 112.5"
    by (simp add: np_max_replicate)
  have d: "0 \<le> damage_state initial_state" "damage_state initial_state \<le> 1"
    by (simp_all add: initial_state_def)
  have b: "\<And>sf max_stress.
           stress_field_loop unit_scalers (const_pinn 100) (damage_state initial_state) RESOLUTION
             = Inr sf \<Longrightarrow>
           np_max sf = Inr max_stress \<Longrightarrow> - 50000 \<le> max_stress"
    using f m by auto
  show ?thesis
    using damage_non_decreasing_for_nonnegative_growth
      [of initial_state unit_scalers "const_pinn 100" "const_lstm 0" send_ok, OF d b] f m d
    by simp
qed

subsection \<open>C2: the growth law\<close>



subsection \<open>C5: when the prognostics model runs\<close>

text \<open>
  C5: in a tick that sends its message, the sequence model is consulted exactly when the
  window, after the push of this tick, holds 10 samples. If it does not, the prediction is
  the damage state just computed, \<open>rul\<close> is \<open>None\<close> (not the number zero), and the outcome
  is the same for every sequence model, even one that would raise. If it does, the
  prediction is entry \<open>[0][0]\<close> of the model's answer on the window and \<open>rul\<close> is
  \<open>(0.9 - prediction) / 1.0\<close> below the threshold 0.9 and \<open>0.0\<close> otherwise.
\<close>

theorem prognostics_gate:
  assumes "loop_body scalers pinn lstm send s = Sent m s'"
  shows "(length (history s') \<noteq> 10 \<longrightarrow>
            damage_prediction m = damage_state s' \<and> rul m = None
            \<and> (\<forall>lstm'. loop_body scalers pinn lstm' send s = Sent m s'))
       \<and> (length (history s') = 10 \<longrightarrow>
            (\<exists>out row d. lstm [history s'] = Inr out \<and> py_index out 0 = Inr row
               \<and> py_index row 0 = Inr d \<and> damage_prediction m = d
               \<and> rul m = Some (if d < 0.9 then (0.9 - d) / 1.0 else 0.0)))"
proof -
  obtain sf max_stress where
    f: "stress_field_loop scalers pinn (damage_state s) RESOLUTION = Inr sf"
    and mx: "np_max sf = Inr max_stress"
    using assms by (rule loop_body_Sent_fieldE)
  let ?s2 = "after_update s max_stress (np_mean sf)"
  obtain d r where p: "prognostics lstm ?s2 = Inr (d, r)"
    and m: "m = \<lparr>msg_time = time s, stress_field = sf, damage_prediction = d, rul = r\<rparr>"
    and snd: "send m = None"
    and s': "s' = ?s2\<lparr>time := time s + TIME_STEP\<rparr>"
    using assms unfolding loop_body_Sent_iff [OF f mx] by blast
  have h: "history s' = history ?s2" and ds: "damage_state s' = damage_state ?s2"
    by (simp_all add: s')
  show ?thesis
  proof (intro conjI impI allI)
    assume nf: "length (history s') \<noteq> 10"
    then have nf2: "length (history ?s2) \<noteq> history_maxlen"
      by (simp add: h history_maxlen_def)
    have dr: "d = damage_state ?s2" "r = None"
      using p by (simp_all add: prognostics_not_full [OF nf2])
    show "damage_prediction m = damage_state s'" and "rul m = None"
      by (simp_all add: m dr ds)
    fix lstm'
    have "prognostics lstm' ?s2 = Inr (d, r)"
      by (simp add: prognostics_not_full [OF nf2] dr)
    then show "loop_body scalers pinn lstm' send s = Sent m s'"
      unfolding loop_body_Sent_iff [OF f mx] using m snd s' by blast
  next
    assume "length (history s') = 10"
    then have "length (history ?s2) = history_maxlen"
      by (simp add: h history_maxlen_def)
    from prognostics_full_Inr [OF this p]
    obtain out row where "lstm [history ?s2] = Inr out" "py_index out 0 = Inr row"
      "py_index row 0 = Inr d" "r = Some (rul_of d)"
      by blast
    then show "\<exists>out row d. lstm [history s'] = Inr out \<and> py_index out 0 = Inr row
               \<and> py_index row 0 = Inr d \<and> damage_prediction m = d
               \<and> rul m = Some (if d < 0.9 then (0.9 - d) / 1.0 else 0.0)"
      by (auto simp: h m rul_of_def FAILURE_THRESHOLD_def TIME_STEP_def)
  qed
qed

theorem prognostics_gate_witness:
  "loop_body unit_scalers (const_pinn 0) (const_lstm 0.85) send_ok initial_state =
     Sent \<lparr>msg_time = 0, stress_field = replicate 2601 0, damage_prediction = 0.052,
            rul = None\<rparr>
          \<lparr>history = [(0, 0)], time = 1, damage_state = 0.052\<rparr>
   \<and> length [(0::real, 0::real)] \<noteq> 10
   \<and> loop_body unit_scalers (const_pinn 0) failing_lstm send_ok initial_state =
     Sent \<lparr>msg_time = 0, stress_field = replicate 2601 0, damage_prediction = 0.052,
            rul = None\<rparr>
          \<lparr>history = [(0, 0)], time = 1, damage_state = 0.052\<rparr>
   \<and> loop_body unit_scalers (const_pinn 0) (const_lstm 0.85) send_ok nine_quiet_ticks =
     Sent \<lparr>msg_time = 9, stress_field = replicate 2601 0, damage_prediction = 0.85,
            rul = Some 0.05\<rparr>
          \<lparr>history = replicate 10 (0, 0), time = 10, damage_state = 0.07\<rparr>
   \<and> length (replicate 10 (0::real, 0::real)) = 10
   \<and> const_lstm 0.85 [replicate 10 (0, 0)] = Inr [[0.85]]"
  using prognostics_gate [OF first_tick [of "const_lstm 0.85"]]
    prognostics_gate [OF tenth_tick [of "0.85"]]
    first_tick [of "const_lstm 0.85"] tenth_tick [of "0.85"]
  by (simp add: rul_of_def FAILURE_THRESHOLD_def TIME_STEP_def const_lstm_def)

subsection \<open>C7: the history window\<close>

text \<open>
  C7: the window never holds more than 10 samples and, after 10 or more pushes, holds the
  last 10 samples pushed, in arrival order. For a session started at process start: the
  window of the state it reaches has at most 10 entries, and when the loop has not raised it
  is the list of the \<^verbatim>\<open>[max_stress, avg_stress]\<close> pairs of the last 10 messages, oldest first.
  For the deque itself: any sequence of pushes into the empty deque leaves its last 10
  items in order, and a push into a deque of 10 items drops exactly the oldest.
\<close>

theorem history_window_fifo:
  assumes "session scalers pinn lstm send n initial_state = (ms, s', r)"
  shows "length (history s') \<le> 10
       \<and> (r = None \<longrightarrow> length ms = n
             \<and> history s' = drop (n - 10) (map stress_sample ms))
       \<and> length (foldl (deque_append history_maxlen) [] xs) \<le> 10
       \<and> foldl (deque_append history_maxlen) [] xs = drop (length xs - 10) xs
       \<and> (length d = 10 \<longrightarrow> deque_append history_maxlen d x = tl d @ [x])"
proof (intro conjI impI)
  have "length (history initial_state) \<le> history_maxlen"
    by (simp add: initial_state_def)
  then have "length (history s') \<le> history_maxlen"
    using assms by (rule session_history_bound)
  then show "length (history s') \<le> 10"
    by (simp add: history_maxlen_def)
next
  assume "r = None"
  with assms have run: "session scalers pinn lstm send n initial_state = (ms, s', None)"
    by simp
  show "length ms = n"
    using session_history [OF run] by simp
  then show "history s' = drop (n - 10) (map stress_sample ms)"
    using session_history [OF run]
    by (simp add: deque_pushes initial_state_def history_maxlen_def)
next
  show "length (foldl (deque_append history_maxlen) [] xs) \<le> 10"
    by (simp add: deque_pushes history_maxlen_def)
  show "foldl (deque_append history_maxlen) [] xs = drop (length xs - 10) xs"
    by (simp add: deque_pushes history_maxlen_def)
next
  assume "length d = 10"
  then show "deque_append history_maxlen d x = tl d @ [x]"
    by (simp add: deque_append_full history_maxlen_def)
qed

theorem history_window_fifo_witness:
  "snd (snd (session unit_scalers (const_pinn 100) (const_lstm 0.5) send_ok 12 initial_state))
     = None
   \<and> length (fst (session unit_scalers (const_pinn 100) (const_lstm 0.5) send_ok 12
                     initial_state)) = 12
   \<and> history (fst (snd (session unit_scalers (const_pinn 100) (const_lstm 0.5) send_ok 12
                             initial_state)))
     = drop 2 (map stress_sample
         (fst (session unit_scalers (const_pinn 100) (const_lstm 0.5) send_ok 12 initial_state)))
   \<and> foldl (deque_append history_maxlen) [] [1, 2, 3, 4, 5, 6, 7, 8, 9, 10, 11, 12 :: nat]
     = [3, 4, 5, 6, 7, 8, 9, 10, 11, 12]
   \<and> length [3, 4, 5, 6, 7, 8, 9, 10, 11, 12 :: nat] = 10
   \<and> deque_append history_maxlen [3, 4, 5, 6, 7, 8, 9, 10, 11, 12 :: nat] 13
     = [4, 5, 6, 7, 8, 9, 10, 11, 12, 13]"
  using history_window_fifo
    [of unit_scalers "const_pinn 100" "const_lstm 0.5" send_ok 12
        "fst (session unit_scalers (const_pinn 100) (const_lstm 0.5) send_ok 12 initial_state)"
        "fst (snd (session unit_scalers (const_pinn 100) (const_lstm 0.5) send_ok 12
                     initial_state))"
        "snd (snd (session unit_scalers (const_pinn 100) (const_lstm 0.5) send_ok 12
                     initial_state))"
        "[1, 2, 3, 4, 5, 6, 7, 8, 9, 10, 11, 12 :: nat]"
        "[3, 4, 5, 6, 7, 8, 9, 10, 11, 12 :: nat]" 13]
    steady_session [of 100 "0.5" 12 initial_state]
  by simp

subsection \<open>C6: the rows built for the mesh\<close>

text \<open>
  C6: for a resolution \<open>R\<close> (positive, as the division \<^verbatim>\<open>x / RESOLUTION\<close> needs) and a scaler
  table that has a mean and a non-zero scale for each of the six features, one pass of the
  double loop builds exactly \<open>(R + 1)\<^sup>2\<close> rows, the row of \<open>(ix, iy)\<close> at position
  \<open>iy * (R + 1) + ix\<close> (\<open>y\<close> outer, \<open>x\<close> inner), each feature being
  \<open>(value - mean) / scale\<close> with \<open>phys_x = (ix / R - 0.5) * 1050\<close> and
  \<open>phys_y = (iy / R - 0.5) * 300\<close>; and these rows are what the surrogate is asked about, in
  that order, when the stress field is computed.
\<close>

theorem grid_sampler_rows:
  assumes "0 < R"
    and "\<forall>k \<in> set feature_names. \<exists>e. scalers k = Some e \<and> e ''mean'' = Some (mu k)
           \<and> e ''scale'' = Some (sg k) \<and> sg k \<noteq> 0"
  shows "\<exists>vs. grid_sampler scalers R = Inr vs
           \<and> length vs = (R + 1)\<^sup>2
           \<and> (\<forall>iy \<le> R. \<forall>ix \<le> R.
                 vs ! (iy * (R + 1) + ix) =
                   [((real ix / real R - 0.5) * 1050 - mu ''x'') / sg ''x'',
                    ((real iy / real R - 0.5) * 300 - mu ''y'') / sg ''y'',
                    (50000 - mu ''load_mag'') / sg ''load_mag'',
                    (5.5 - mu ''global_deflection'') / sg ''global_deflection'',
                    (25 - mu ''fc'') / sg ''fc'',
                    (314 - mu ''fy'') / sg ''fy''])
           \<and> (\<forall>pinn c sf i. stress_field_loop scalers pinn c R = Inr sf \<and> i < (R + 1)\<^sup>2 \<longrightarrow>
                 (\<exists>out row b. pinn [vs ! i] = Inr out \<and> py_index out 0 = Inr row
                    \<and> py_index row 1 = Inr b \<and> sf ! i = amplify b c))"
proof -
  let ?vs = "map (scaled_row mu sg R) (grid_points R)"
  have a: "grid_sampler scalers R = Inr ?vs"
    by (rule grid_sampler_scaled [OF assms])
  have b: "length ?vs = (R + 1)\<^sup>2"
    by (simp add: length_grid_points)
  have c: "?vs ! (iy * (R + 1) + ix) =
                   [((real ix / real R - 0.5) * 1050 - mu ''x'') / sg ''x'',
                    ((real iy / real R - 0.5) * 300 - mu ''y'') / sg ''y'',
                    (50000 - mu ''load_mag'') / sg ''load_mag'',
                    (5.5 - mu ''global_deflection'') / sg ''global_deflection'',
                    (25 - mu ''fc'') / sg ''fc'',
                    (314 - mu ''fy'') / sg ''fy'']"
    if "iy \<le> R" "ix \<le> R" for iy ix
  proof -
    have "iy * (R + 1) + ix < length (grid_points R)"
      unfolding length_grid_points using that(2,1) by (rule grid_index_bound)
    then have "?vs ! (iy * (R + 1) + ix)
        = scaled_row mu sg R (grid_points R ! (iy * (R + 1) + ix))"
      by (rule nth_map)
    also have "\<dots> = scaled_row mu sg R (ix, iy)"
      by (simp only: grid_points_nth [OF that(2,1)])
    finally show ?thesis
      by (simp add: scaled_row_def)
  qed
  have d: "\<exists>out row b. pinn [?vs ! i] = Inr out \<and> py_index out 0 = Inr row
                    \<and> py_index row 1 = Inr b \<and> sf ! i = amplify b c"
    if "stress_field_loop scalers pinn c R = Inr sf \<and> i < (R + 1)\<^sup>2" for pinn c sf i
  proof -
    from that stress_field_loop_nth [of scalers pinn c R sf i]
    obtain X out row b where "point_features scalers R (grid_points R ! i) = Inr X"
      "pinn [X] = Inr out" "py_index out 0 = Inr row" "py_index row 1 = Inr b"
      "sf ! i = amplify b c"
      by blast
    moreover have "X = ?vs ! i"
      using calculation(1) that by (simp add: point_features_scaled [OF assms] length_grid_points)
    ultimately show ?thesis by blast
  qed
  have c': "\<forall>iy \<le> R. \<forall>ix \<le> R.
                 ?vs ! (iy * (R + 1) + ix) =
                   [((real ix / real R - 0.5) * 1050 - mu ''x'') / sg ''x'',
                    ((real iy / real R - 0.5) * 300 - mu ''y'') / sg ''y'',
                    (50000 - mu ''load_mag'') / sg ''load_mag'',
                    (5.5 - mu ''global_deflection'') / sg ''global_deflection'',
                    (25 - mu ''fc'') / sg ''fc'',
                    (314 - mu ''fy'') / sg ''fy'']"
    using c by blast
  have d': "\<forall>pinn c sf i. stress_field_loop scalers pinn c R = Inr sf \<and> i < (R + 1)\<^sup>2 \<longrightarrow>
                 (\<exists>out row b. pinn [?vs ! i] = Inr out \<and> py_index out 0 = Inr row
                    \<and> py_index row 1 = Inr b \<and> sf ! i = amplify b c)"
    using d by blast
  show ?thesis
    by (rule exI [of _ ?vs]) (rule conjI a b c' d')+
qed

theorem grid_sampler_rows_witness:
  "(0::nat) < 2
   \<and> map unit_scalers feature_names = replicate 6 (Some [''mean'' \<mapsto> 0, ''scale'' \<mapsto> 1])
   \<and> grid_sampler unit_scalers 2 =
       Inr [[- 525, - 150, 50000, 5.5, 25, 314], [0, - 150, 50000, 5.5, 25, 314],
            [525, - 150, 50000, 5.5, 25, 314], [- 525, 0, 50000, 5.5, 25, 314],
            [0, 0, 50000, 5.5, 25, 314], [525, 0, 50000, 5.5, 25, 314],
            [- 525, 150, 50000, 5.5, 25, 314], [0, 150, 50000, 5.5, 25, 314],
            [525, 150, 50000, 5.5, 25, 314]]
   \<and> grid_points 2 = [(0, 0), (1, 0), (2, 0), (0, 1), (1, 1), (2, 1), (0, 2), (1, 2), (2, 2)]"
proof -
  have pos: "(0::nat) < 2" by simp
  have g: "grid_sampler unit_scalers 2 =
       Inr [[- 525, - 150, 50000, 5.5, 25, 314], [0, - 150, 50000, 5.5, 25, 314],
            [525, - 150, 50000, 5.5, 25, 314], [- 525, 0, 50000, 5.5, 25, 314],
            [0, 0, 50000, 5.5, 25, 314], [525, 0, 50000, 5.5, 25, 314],
            [- 525, 150, 50000, 5.5, 25, 314], [0, 150, 50000, 5.5, 25, 314],
            [525, 150, 50000, 5.5, 25, 314]]"
    by (simp add: grid_sampler_def grid_points_2 point_features_unit)
  have u: "map unit_scalers feature_names
             = replicate 6 (Some [''mean'' \<mapsto> 0, ''scale'' \<mapsto> 1])"
    by (simp add: unit_scalers_def feature_names_def eval_nat_numeral)
  show ?thesis
    using grid_sampler_rows [OF pos unit_scalers_entries] g grid_points_2 u
    by simp
qed

subsection \<open>C8: damage amplifies stress\<close>

text \<open>
  C8: in a tick that sends its message, the stress field has one value per mesh point and
  the value of each point is \<open>b * (1 + 2.5 * c)\<close>, where \<open>b\<close> is entry \<open>[0][1]\<close> of the
  surrogate's answer for the row of that point and \<open>c\<close> is the damage state at the start of
  the tick, before line 90 updates it; with \<open>c = 0\<close> the value is \<open>b\<close> itself.
\<close>

theorem stress_amplification:
  assumes "loop_body scalers pinn lstm send s = Sent m s'"
  shows "length (stress_field m) = (RESOLUTION + 1)\<^sup>2
       \<and> (\<forall>i < length (stress_field m).
            \<exists>X out row b. point_features scalers RESOLUTION (grid_points RESOLUTION ! i) = Inr X
              \<and> pinn [X] = Inr out \<and> py_index out 0 = Inr row \<and> py_index row 1 = Inr b
              \<and> stress_field m ! i = b * (1 + 2.5 * damage_state s))
       \<and> amplify b0 c = b0 * (1 + 2.5 * c)
       \<and> amplify b0 0 = b0"
proof -
  obtain sf max_stress where
    f: "stress_field_loop scalers pinn (damage_state s) RESOLUTION = Inr sf"
    and mx: "np_max sf = Inr max_stress"
    using assms by (rule loop_body_Sent_fieldE)
  have m: "stress_field m = sf"
    using assms unfolding loop_body_Sent_iff [OF f mx] by auto
  have len: "length sf = (RESOLUTION + 1)\<^sup>2"
    using f by (rule stress_field_loop_length)
  have pt: "\<exists>X out row b. point_features scalers RESOLUTION (grid_points RESOLUTION ! i) = Inr X
              \<and> pinn [X] = Inr out \<and> py_index out 0 = Inr row \<and> py_index row 1 = Inr b
              \<and> sf ! i = b * (1 + 2.5 * damage_state s)" if "i < length sf" for i
    using stress_field_loop_nth [OF f, of i] that unfolding len amplify_def by simp
  show ?thesis
    using len pt by (simp add: m amplify_def)
qed

theorem stress_amplification_witness:
  "loop_body unit_scalers (const_pinn 100) (const_lstm 0) send_ok initial_state =
     Sent \<lparr>msg_time = 0, stress_field = replicate 2601 112.5, damage_prediction = 0.0520045,
            rul = None\<rparr>
          \<lparr>history = [(112.5, 112.5)], time = 1, damage_state = 0.0520045\<rparr>
   \<and> length (replicate 2601 (112.5::real)) = (RESOLUTION + 1)\<^sup>2
   \<and> (0::nat) < length (replicate 2601 (112.5::real))
   \<and> replicate 2601 (112.5::real) ! 0 = 100 * (1 + 2.5 * damage_state initial_state)
   \<and> amplify 100 0 = 100"
  using stress_amplification [OF first_tick_100 [of "const_lstm 0"], of 100 0]
    first_tick_100 [of "const_lstm 0"]
  by (simp add: initial_state_def)

subsection \<open>C4: a failing collaborator\<close>




subsection \<open>C9: a scaler table without a required entry\<close>

text \<open>
  C9 states that a scaler table lacking a required feature name makes the service fail at
  startup. Module import reads the table and looks nothing up in it: with the entry for
  \<open>fy\<close> missing, startup returns the initial state, and it is the first tick that raises
  \<open>KeyError\<close>, at line 72.
\<close>

theorem missing_scaler_entry_passes_startup:
  "(unit_scalers(''fy'' := None)) ''fy'' = None
   \<and> startup (Inr (const_pinn 0)) (Inr (const_lstm 0)) (Inr (unit_scalers(''fy'' := None))) =
       Inr (const_pinn 0, const_lstm 0, unit_scalers(''fy'' := None), initial_state)
   \<and> loop_body (unit_scalers(''fy'' := None)) (const_pinn 0) (const_lstm 0) send_ok
         initial_state = Raised (KeyError ''fy'') initial_state"
  by (simp add: startup_def first_tick_missing_fy)

text \<open>
  C9 as the code has it: when the table lacks the entry of one of the six feature names,
  startup succeeds all the same; every tick then raises while its first row is built, a
  \<open>KeyError\<close> or the \<open>ZeroDivisionError\<close> of a zero scale met earlier in the row, with the
  shared state untouched, and the session loop ends with that exception.
\<close>

theorem missing_scaler_entry_raises_in_tick:
  assumes "k \<in> set feature_names" and "scalers k = None"
  shows "startup (Inr pinn) (Inr lstm) (Inr scalers) = Inr (pinn, lstm, scalers, initial_state)
       \<and> (\<exists>e. (e = ZeroDivisionError \<or> (\<exists>k'. e = KeyError k'))
              \<and> loop_body scalers pinn lstm send s = Raised e s
              \<and> session scalers pinn lstm send (Suc n) s = ([], s, Some e))"
proof -
  obtain e where e: "point_features scalers RESOLUTION (0, 0) = Inl e"
    and kind: "e = ZeroDivisionError \<or> (\<exists>k'. e = KeyError k')"
    using point_features_missing [where k = k and scalers = scalers, OF assms] by blast
  have "point_stress scalers pinn (damage_state s) RESOLUTION (0, 0) = Inl e"
    by (simp add: point_stress_def e)
  then have "stress_field_loop scalers pinn (damage_state s) RESOLUTION = Inl e"
    by (rule stress_field_loop_first_point)
  then have r: "loop_body scalers pinn lstm send s = Raised e s"
    by (rule loop_body_field_raises)
  then have "session scalers pinn lstm send (Suc n) s = ([], s, Some e)"
    by (rule session_raises)
  with r kind show ?thesis
    by (auto simp: startup_def)
qed

theorem missing_scaler_entry_raises_in_tick_witness:
  "''load_mag'' \<in> set feature_names
   \<and> (unit_scalers(''load_mag'' := None)) ''load_mag'' = None
   \<and> startup (Inr (const_pinn 0)) (Inr (const_lstm 0)) (Inr (unit_scalers(''load_mag'' := None)))
       = Inr (const_pinn 0, const_lstm 0, unit_scalers(''load_mag'' := None), initial_state)
   \<and> (\<exists>e. (e = ZeroDivisionError \<or> (\<exists>k'. e = KeyError k'))
          \<and> loop_body (unit_scalers(''load_mag'' := None)) (const_pinn 0) (const_lstm 0) send_ok
                initial_state = Raised e initial_state
          \<and> session (unit_scalers(''load_mag'' := None)) (const_pinn 0) (const_lstm 0) send_ok
                (Suc 0) initial_state = ([], initial_state, Some e))"
proof -
  have a: "''load_mag'' \<in> set feature_names"
    by (simp add: feature_names_def)
  have b: "(unit_scalers(''load_mag'' := None)) ''load_mag'' = None"
    by simp
  have c: "startup (Inr (const_pinn 0)) (Inr (const_lstm 0))
             (Inr (unit_scalers(''load_mag'' := None)))
       = Inr (const_pinn 0, const_lstm 0, unit_scalers(''load_mag'' := None), initial_state)
   \<and> (\<exists>e. (e = ZeroDivisionError \<or> (\<exists>k'. e = KeyError k'))
          \<and> loop_body (unit_scalers(''load_mag'' := None)) (const_pinn 0) (const_lstm 0) send_ok
                initial_state = Raised e initial_state
          \<and> session (unit_scalers(''load_mag'' := None)) (const_pinn 0) (const_lstm 0) send_ok
                (Suc 0) initial_state = ([], initial_state, Some e))"
    by (rule missing_scaler_entry_raises_in_tick
      [where k = "''load_mag''" and scalers = "unit_scalers(''load_mag'' := None)", OF a b])
  from a b c show ?thesis
    by (rule conjI [OF _ conjI])
qed

subsection \<open>C10: the reported time\<close>



end
